theory Spec2Isabelle
  imports Main "HOL-Library.Word"
begin

unbundle bit_operations_syntax

section \<open>Go values used by handler.go\<close>

text \<open>
  A non-nil Go \<^verbatim>\<open>error\<close> is represented by its message (what \<^verbatim>\<open>%v\<close> prints);
  a possibly nil error is an \<open>error option\<close>, with \<open>None\<close> for nil.
\<close>

type_synonym error = string

text \<open>
  How a call ends: it returns, it panics with an error value, or it never returns
  because it waits for a lock that nobody can release.
\<close>

datatype 'a outcome = Returns 'a | Panics error | Blocks

text \<open>
  \<^verbatim>\<open>sync.Mutex\<close>: the zero value is unlocked. \<^verbatim>\<open>Lock\<close> on a locked mutex waits
  (\<open>None\<close>: no step is possible); \<^verbatim>\<open>Unlock\<close> of an unlocked mutex is a run-time error.
\<close>

datatype Mutex = Unlocked | Locked

definition Mutex_Lock :: "Mutex \<Rightarrow> Mutex option" where
  "Mutex_Lock m = (case m of Unlocked \<Rightarrow> Some Locked | Locked \<Rightarrow> None)"

definition Mutex_Unlock :: "Mutex \<Rightarrow> error + Mutex" where
  "Mutex_Unlock m =
     (case m of Locked \<Rightarrow> Inr Unlocked | Unlocked \<Rightarrow> Inl ''sync: unlock of unlocked mutex'')"

text \<open>
  An \<^verbatim>\<open>*os.File\<close> is identified by its descriptor; \<^verbatim>\<open>os.Stderr\<close> is descriptor 2.
  An \<^verbatim>\<open>io.Writer\<close> is either a file or some other writer, identified by a number.
\<close>

type_synonym os_File = nat

definition os_Stderr :: os_File where
  "os_Stderr = 2"

datatype io_Writer = File_Writer os_File | Other_Writer nat

text \<open>
  The flags of \<^verbatim>\<open>os.OpenFile\<close> are Go \<^verbatim>\<open>int\<close>s combined with bitwise or; the values are
  those of package \<^verbatim>\<open>syscall\<close> on Linux. \<^verbatim>\<open>os.FileMode\<close> is a \<^verbatim>\<open>uint32\<close>; the source
  writes the permission as the octal literal \<^verbatim>\<open>0660\<close>, read here digit by digit.
\<close>

definition O_RDONLY :: int where "O_RDONLY = 0"
definition O_WRONLY :: int where "O_WRONLY = 1"
definition O_RDWR :: int where "O_RDWR = 2"
definition O_CREATE :: int where "O_CREATE = 64"
definition O_EXCL :: int where "O_EXCL = 128"
definition O_TRUNC :: int where "O_TRUNC = 512"
definition O_APPEND :: int where "O_APPEND = 1024"

type_synonym FileMode = "32 word"

definition octal :: "nat list \<Rightarrow> FileMode" where
  "octal ds = foldl (\<lambda>a d. 8 * a + of_nat d) 0 ds"

section \<open>The collaborators declared outside handler.go\<close>

text \<open>
  Modelled from the spec: the type \<^verbatim>\<open>LogRecord\<close> is declared in another file of the
  package. The spec (section 6) requires of it an ordered numeric \<^verbatim>\<open>Level\<close> comparable
  with \<^verbatim>\<open><\<close>; handler.go compares it with the handler's \<^verbatim>\<open>Level int\<close>, so it is a Go
  \<^verbatim>\<open>int\<close>. Only the order of levels is used, never arithmetic, so \<open>int\<close> is exact
  here. The record is extensible: whatever other fields a record has live in its
  \<open>more\<close> part.
\<close>

record LogRecord =
  Level :: int

text \<open>
  Modelled from the spec: the interface \<^verbatim>\<open>Formatter\<close> and the package variables
  \<^verbatim>\<open>TerminalFormatter\<close> and \<^verbatim>\<open>DefaultFormatter\<close> are declared in another file. A
  formatter value is one of these two variables or any other formatter; the spec calls
  the default one "distinct from the terminal one". What \<^verbatim>\<open>Format\<close> returns is given
  by the environment below.
\<close>

datatype Formatter = TerminalFormatter | DefaultFormatter | Other_Formatter nat

section \<open>The world the handlers act on\<close>

text \<open>
  Every call that leaves handler.go is recorded, oldest first: a call of a formatter
  on the record at an address, a \<^verbatim>\<open>Write\<close> of bytes on a writer (what \<^verbatim>\<open>fmt.Fprintln\<close>
  and \<^verbatim>\<open>fmt.Fprintf\<close> do once per call), an \<^verbatim>\<open>os.OpenFile\<close> and a \<^verbatim>\<open>Close\<close> of a file.
\<close>

datatype event =
    Format_call Formatter nat
  | Write_call io_Writer string
  | OpenFile_call string int FileMode
  | Close_call os_File

text \<open>
  Modelled from the spec: the method \<^verbatim>\<open>Format\<close> of a formatter is declared in
  another file. \<^verbatim>\<open>Format(record)\<close> gives a string and a possibly nil error (spec,
  section 6) and leaves the record alone (spec, section 3); what it gives is a field of
  the environment. The other two fields are the operating system's answers to
  \<^verbatim>\<open>OpenFile\<close> and \<^verbatim>\<open>Close\<close>, which may depend on everything that happened before.
\<close>

record 'r env =
  Format :: "Formatter \<Rightarrow> 'r LogRecord_scheme \<Rightarrow> string \<times> error option"
  OpenFile_answer :: "event list \<Rightarrow> string \<Rightarrow> int \<Rightarrow> FileMode \<Rightarrow> error + os_File"
  Close_answer :: "event list \<Rightarrow> os_File \<Rightarrow> error option"

section \<open>The handler types\<close>

record NullHandler =
  Name :: string

record StreamHandler =
  Out :: io_Writer
  Formatter :: Formatter
  Name :: string
  Level :: int
  mu :: Mutex

record FileHandler =
  Path :: string
  Out :: os_File
  Name :: string
  Level :: int
  Formatter :: Formatter
  mu :: Mutex

text \<open>The interface \<^verbatim>\<open>Handler\<close> has these three implementations.\<close>

datatype Handler =
    A_NullHandler NullHandler
  | A_StreamHandler StreamHandler
  | A_FileHandler FileHandler

text \<open>
  The heap holds the \<^verbatim>\<open>LogRecord\<close> objects and the handler objects, by address, next to
  the trace of outside calls. Methods get a \<^verbatim>\<open>*LogRecord\<close>: an address into \<open>records\<close>.
  Nil pointers and nil interface values are not represented: a record address always
  holds a record, and a handler always has a formatter and a sink.
\<close>

record 'r world =
  records :: "nat \<Rightarrow> 'r LogRecord_scheme"
  handlers :: "nat \<Rightarrow> Handler"
  trace :: "event list"

definition emit_event :: "event \<Rightarrow> 'r world \<Rightarrow> 'r world" where
  "emit_event ev w = w\<lparr>trace := trace w @ [ev]\<rparr>"

text \<open>
  \<^verbatim>\<open>fmt.Fprintln(out, msg)\<close> writes \<^verbatim>\<open>msg\<close> and a newline in one \<^verbatim>\<open>Write\<close>;
  \<^verbatim>\<open>fmt.Fprintf(os.Stderr, "Format record failed, [%v]\n", err)\<close> writes the text with
  the error's message in place of \<^verbatim>\<open>%v\<close>. Both results are dropped by handler.go.
\<close>

definition fmt_Fprintln :: "io_Writer \<Rightarrow> string \<Rightarrow> 'r world \<Rightarrow> 'r world" where
  "fmt_Fprintln out msg w = emit_event (Write_call out (msg @ ''\<newline>'')) w"

definition Format_record_failed :: "error \<Rightarrow> string" where
  "Format_record_failed err = ''Format record failed, ['' @ err @ '']\<newline>''"

definition fmt_Fprintf_failed :: "error \<Rightarrow> 'r world \<Rightarrow> 'r world" where
  "fmt_Fprintf_failed err w =
     emit_event (Write_call (File_Writer os_Stderr) (Format_record_failed err)) w"

definition os_OpenFile ::
  "'r env \<Rightarrow> string \<Rightarrow> int \<Rightarrow> FileMode \<Rightarrow> 'r world \<Rightarrow> (error + os_File) \<times> 'r world" where
  "os_OpenFile E name flag perm w =
     (OpenFile_answer E (trace w) name flag perm, emit_event (OpenFile_call name flag perm) w)"

definition os_File_Close :: "'r env \<Rightarrow> os_File \<Rightarrow> 'r world \<Rightarrow> error option \<times> 'r world" where
  "os_File_Close E f w = (Close_answer E (trace w) f, emit_event (Close_call f) w)"

section \<open>NullHandler\<close>

definition NullHandler_Handle :: "NullHandler \<Rightarrow> nat \<Rightarrow> 'r world \<Rightarrow> 'r world" where
  "NullHandler_Handle self rec w = w"

definition NullHandler_Filter :: "NullHandler \<Rightarrow> nat \<Rightarrow> 'r world \<Rightarrow> bool" where
  "NullHandler_Filter self rec w = True"

definition NullHandler_Emit :: "NullHandler \<Rightarrow> nat \<Rightarrow> 'r world \<Rightarrow> 'r world" where
  "NullHandler_Emit self rec w = w"

definition NullHandler_Close :: "NullHandler \<Rightarrow> 'r world \<Rightarrow> error option \<times> 'r world" where
  "NullHandler_Close self w = (None, w)"

section \<open>StreamHandler\<close>

text \<open>
  Constructors end like any call: \<^verbatim>\<open>NewStreamHandler\<close> has one return statement and
  touches nothing outside; the mutex, not named in the literal, has its zero value.
  (NullHandler has no constructor function: it is built by a struct literal.)
\<close>

definition NewStreamHandler :: "string \<Rightarrow> StreamHandler outcome" where
  "NewStreamHandler name =
     Returns \<lparr> StreamHandler.Out = File_Writer os_Stderr,
               StreamHandler.Formatter = TerminalFormatter,
               StreamHandler.Name = name,
               StreamHandler.Level = 0,
               StreamHandler.mu = Unlocked \<rparr>"

definition StreamHandler_Emit :: "'r env \<Rightarrow> StreamHandler \<Rightarrow> nat \<Rightarrow> 'r world \<Rightarrow> 'r world" where
  "StreamHandler_Emit E self rec w =
     (let (msg, err) = Format E (StreamHandler.Formatter self) (records w rec);
          w1 = emit_event (Format_call (StreamHandler.Formatter self) rec) w;
          w2 = (case err of Some e \<Rightarrow> fmt_Fprintf_failed e w1 | None \<Rightarrow> w1)
      in fmt_Fprintln (StreamHandler.Out self) msg w2)"

definition StreamHandler_Filter :: "StreamHandler \<Rightarrow> nat \<Rightarrow> 'r world \<Rightarrow> bool" where
  "StreamHandler_Filter self rec w =
     (if LogRecord.Level (records w rec) < StreamHandler.Level self then True else False)"

text \<open>
  The receiver is a value: \<open>self\<close> is the method's own copy of the handler, and the
  lock taken is the copy's. The deferred \<^verbatim>\<open>Unlock\<close> runs when \<^verbatim>\<open>Emit\<close> has returned.
\<close>

definition StreamHandler_Handle ::
  "'r env \<Rightarrow> StreamHandler \<Rightarrow> nat \<Rightarrow> 'r world \<Rightarrow> 'r world outcome" where
  "StreamHandler_Handle E self rec w =
     (let filtered = StreamHandler_Filter self rec w in
      if \<not> filtered then
        (case Mutex_Lock (StreamHandler.mu self) of
           None \<Rightarrow> Blocks
         | Some m \<Rightarrow>
             (let self1 = self\<lparr>StreamHandler.mu := m\<rparr>;
                  w1 = StreamHandler_Emit E self1 rec w
              in case Mutex_Unlock (StreamHandler.mu self1) of
                   Inl e \<Rightarrow> Panics e
                 | Inr m' \<Rightarrow> Returns w1))
      else Returns w)"

definition StreamHandler_Close :: "StreamHandler \<Rightarrow> 'r world \<Rightarrow> error option \<times> 'r world" where
  "StreamHandler_Close self w = (None, w)"

section \<open>FileHandler\<close>

definition NewFileHandler ::
  "'r env \<Rightarrow> string \<Rightarrow> string \<Rightarrow> 'r world \<Rightarrow> FileHandler outcome \<times> 'r world" where
  "NewFileHandler E name path w =
     (case os_OpenFile E path (O_WRONLY OR O_APPEND OR O_CREATE) (octal [0, 6, 6, 0]) w of
        (Inl err, w1) \<Rightarrow> (Panics (''can not open file '' @ path), w1)
      | (Inr file, w1) \<Rightarrow>
          (Returns \<lparr> FileHandler.Path = path,
                     FileHandler.Out = file,
                     FileHandler.Name = name,
                     FileHandler.Level = 0,
                     FileHandler.Formatter = DefaultFormatter,
                     FileHandler.mu = Unlocked \<rparr>, w1))"

definition FileHandler_Emit :: "'r env \<Rightarrow> FileHandler \<Rightarrow> nat \<Rightarrow> 'r world \<Rightarrow> 'r world" where
  "FileHandler_Emit E self rec w =
     (let (msg, err) = Format E (FileHandler.Formatter self) (records w rec);
          w1 = emit_event (Format_call (FileHandler.Formatter self) rec) w;
          w2 = (case err of Some e \<Rightarrow> fmt_Fprintf_failed e w1 | None \<Rightarrow> w1)
      in fmt_Fprintln (File_Writer (FileHandler.Out self)) msg w2)"

definition FileHandler_Filter :: "FileHandler \<Rightarrow> nat \<Rightarrow> 'r world \<Rightarrow> bool" where
  "FileHandler_Filter self rec w =
     (if LogRecord.Level (records w rec) < FileHandler.Level self then True else False)"

definition FileHandler_Handle ::
  "'r env \<Rightarrow> FileHandler \<Rightarrow> nat \<Rightarrow> 'r world \<Rightarrow> 'r world outcome" where
  "FileHandler_Handle E self rec w =
     (let filtered = FileHandler_Filter self rec w in
      if \<not> filtered then
        (case Mutex_Lock (FileHandler.mu self) of
           None \<Rightarrow> Blocks
         | Some m \<Rightarrow>
             (let self1 = self\<lparr>FileHandler.mu := m\<rparr>;
                  w1 = FileHandler_Emit E self1 rec w
              in case Mutex_Unlock (FileHandler.mu self1) of
                   Inl e \<Rightarrow> Panics e
                 | Inr m' \<Rightarrow> Returns w1))
      else Returns w)"

definition FileHandler_Close :: "'r env \<Rightarrow> FileHandler \<Rightarrow> 'r world \<Rightarrow> error option \<times> 'r world" where
  "FileHandler_Close E self w = os_File_Close E (FileHandler.Out self) w"

section \<open>Calls through the interface and through a handler's address\<close>

text \<open>
  A call on a \<^verbatim>\<open>Handler\<close> value dispatches on the implementation. A caller that holds
  a handler at address \<open>a\<close> of the heap calls a method with \<open>handlers w a\<close> as the
  receiver: all methods of handler.go have value receivers, so the method works on a copy
  of the stored handler.
\<close>

fun Handler_Handle :: "'r env \<Rightarrow> Handler \<Rightarrow> nat \<Rightarrow> 'r world \<Rightarrow> 'r world outcome" where
  "Handler_Handle E (A_NullHandler h) rec w = Returns (NullHandler_Handle h rec w)"
| "Handler_Handle E (A_StreamHandler h) rec w = StreamHandler_Handle E h rec w"
| "Handler_Handle E (A_FileHandler h) rec w = FileHandler_Handle E h rec w"

fun Handler_Filter :: "Handler \<Rightarrow> nat \<Rightarrow> 'r world \<Rightarrow> bool" where
  "Handler_Filter (A_NullHandler h) rec w = NullHandler_Filter h rec w"
| "Handler_Filter (A_StreamHandler h) rec w = StreamHandler_Filter h rec w"
| "Handler_Filter (A_FileHandler h) rec w = FileHandler_Filter h rec w"

fun Handler_Emit :: "'r env \<Rightarrow> Handler \<Rightarrow> nat \<Rightarrow> 'r world \<Rightarrow> 'r world" where
  "Handler_Emit E (A_NullHandler h) rec w = NullHandler_Emit h rec w"
| "Handler_Emit E (A_StreamHandler h) rec w = StreamHandler_Emit E h rec w"
| "Handler_Emit E (A_FileHandler h) rec w = FileHandler_Emit E h rec w"

fun Handler_Close :: "'r env \<Rightarrow> Handler \<Rightarrow> 'r world \<Rightarrow> error option \<times> 'r world" where
  "Handler_Close E (A_NullHandler h) w = NullHandler_Close h w"
| "Handler_Close E (A_StreamHandler h) w = StreamHandler_Close h w"
| "Handler_Close E (A_FileHandler h) w = FileHandler_Close E h w"

section \<open>Goroutines calling Handle on one StreamHandler\<close>

text \<open>
  Several goroutines execute \<^verbatim>\<open>h.Handle(record)\<close> on the heap, each for a handler
  address \<open>g_h\<close> and a record address \<open>g_record\<close>. A goroutine is at one of the
  statements of \<^verbatim>\<open>StreamHandler.Handle\<close> and of the \<^verbatim>\<open>Emit\<close> it calls:
  \<^item> \<open>Call\<close>: the call itself, which copies \<^verbatim>\<open>*h\<close> into the receiver \<open>g_self\<close>;
  \<^item> \<open>Filter_line\<close>: \<^verbatim>\<open>filtered := self.Filter(record)\<close> and the test of it;
  \<^item> \<open>Lock_line\<close>: \<^verbatim>\<open>self.mu.Lock()\<close>, which cannot step while \<open>g_self\<close>'s mutex is held;
  \<^item> \<open>Emit_Format\<close>: inside \<^verbatim>\<open>Emit\<close>, the call of the formatter and the report of its error;
  \<^item> \<open>Emit_Fprintln\<close>: inside \<^verbatim>\<open>Emit\<close>, \<^verbatim>\<open>fmt.Fprintln(self.Out, msg)\<close>;
  \<^item> \<open>Unlock_deferred\<close>: the deferred \<^verbatim>\<open>self.mu.Unlock()\<close>;
  \<^item> \<open>Returned\<close>, or \<open>Panicked\<close> with an error.
  The scheduler picks a goroutine for every step.
\<close>

datatype pc =
    Call | Filter_line | Lock_line | Emit_Format | Emit_Fprintln | Unlock_deferred
  | Returned | Panicked error

record goroutine =
  g_pc :: pc
  g_h :: nat
  g_record :: nat
  g_self :: StreamHandler
  g_msg :: string

definition goroutine_step ::
  "'r env \<Rightarrow> goroutine \<Rightarrow> 'r world \<Rightarrow> (goroutine \<times> 'r world) option" where
  "goroutine_step E g w =
     (case g_pc g of
        Call \<Rightarrow>
          (case handlers w (g_h g) of
             A_StreamHandler h \<Rightarrow> Some (g\<lparr>g_pc := Filter_line, g_self := h\<rparr>, w)
           | _ \<Rightarrow> None)
      | Filter_line \<Rightarrow>
          (let filtered = StreamHandler_Filter (g_self g) (g_record g) w in
           if \<not> filtered then Some (g\<lparr>g_pc := Lock_line\<rparr>, w)
           else Some (g\<lparr>g_pc := Returned\<rparr>, w))
      | Lock_line \<Rightarrow>
          (case Mutex_Lock (StreamHandler.mu (g_self g)) of
             None \<Rightarrow> None
           | Some m \<Rightarrow>
               Some (g\<lparr>g_pc := Emit_Format, g_self := (g_self g)\<lparr>StreamHandler.mu := m\<rparr>\<rparr>, w))
      | Emit_Format \<Rightarrow>
          (let (msg, err) =
                 Format E (StreamHandler.Formatter (g_self g)) (records w (g_record g));
               w1 = emit_event (Format_call (StreamHandler.Formatter (g_self g)) (g_record g)) w;
               w2 = (case err of Some e \<Rightarrow> fmt_Fprintf_failed e w1 | None \<Rightarrow> w1)
           in Some (g\<lparr>g_pc := Emit_Fprintln, g_msg := msg\<rparr>, w2))
      | Emit_Fprintln \<Rightarrow>
          Some (g\<lparr>g_pc := Unlock_deferred\<rparr>,
                fmt_Fprintln (StreamHandler.Out (g_self g)) (g_msg g) w)
      | Unlock_deferred \<Rightarrow>
          (case Mutex_Unlock (StreamHandler.mu (g_self g)) of
             Inl e \<Rightarrow> Some (g\<lparr>g_pc := Panicked e\<rparr>, w)
           | Inr m \<Rightarrow>
               Some (g\<lparr>g_pc := Returned, g_self := (g_self g)\<lparr>StreamHandler.mu := m\<rparr>\<rparr>, w))
      | Returned \<Rightarrow> None
      | Panicked e \<Rightarrow> None)"

record 'r config =
  heap :: "'r world"
  goroutines :: "goroutine list"

definition step :: "'r env \<Rightarrow> nat \<Rightarrow> 'r config \<Rightarrow> 'r config option" where
  "step E i c =
     (if i < length (goroutines c) then
        (case goroutine_step E (goroutines c ! i) (heap c) of
           None \<Rightarrow> None
         | Some (g, w) \<Rightarrow> Some \<lparr> heap = w, goroutines = (goroutines c)[i := g] \<rparr>)
      else None)"

fun run :: "'r env \<Rightarrow> nat list \<Rightarrow> 'r config \<Rightarrow> 'r config option" where
  "run E [] c = Some c"
| "run E (i # sched) c = (case step E i c of None \<Rightarrow> None | Some c1 \<Rightarrow> run E sched c1)"

text \<open>
  A goroutine is inside \<^verbatim>\<open>Emit\<close> from the moment \<^verbatim>\<open>Lock\<close> has returned until
  \<^verbatim>\<open>Fprintln\<close> has returned.
\<close>

definition in_Emit :: "goroutine \<Rightarrow> bool" where
  "in_Emit g = (g_pc g = Emit_Format \<or> g_pc g = Emit_Fprintln)"

text \<open>
  A goroutine about to call \<^verbatim>\<open>h.Handle(record)\<close>: its locals are not yet set (they
  hold zero values until \<open>Call\<close> and \<open>Emit_Format\<close> assign them).
\<close>

definition start :: "nat \<Rightarrow> nat \<Rightarrow> goroutine" where
  "start h rec =
     \<lparr> g_pc = Call, g_h = h, g_record = rec,
       g_self = \<lparr> StreamHandler.Out = Other_Writer 0,
                  StreamHandler.Formatter = Other_Formatter 0,
                  StreamHandler.Name = [],
                  StreamHandler.Level = 0,
                  StreamHandler.mu = Unlocked \<rparr>,
       g_msg = [] \<rparr>"

section \<open>A concrete environment and heap\<close>

text \<open>
  A terminal formatter that prints one \<open>!\<close> per level, a default formatter that
  prints \<open>hello\<close>, and other formatters that fail with a partial message; a file system where one directory is missing; a heap with the
  record of level \<open>n\<close> at address \<open>n\<close>, the handler that \<^verbatim>\<open>NewStreamHandler("h")\<close>
  returns at address 0, a
  FileHandler with threshold 2 at address 1, a StreamHandler with threshold 2, a failing
  formatter and a sink of its own at address 2, and NullHandlers elsewhere.
\<close>

definition Format0 :: "Formatter \<Rightarrow> LogRecord \<Rightarrow> string \<times> error option" where
  "Format0 f r =
     (case f of
        TerminalFormatter \<Rightarrow> (replicate (nat (LogRecord.Level r)) (CHR ''!''), None)
      | DefaultFormatter \<Rightarrow> (''hello'', None)
      | Other_Formatter n \<Rightarrow> (''part'', Some ''boom''))"

definition E0 :: "unit env" where
  "E0 = \<lparr> Format = Format0,
          OpenFile_answer = (\<lambda>tr path flag perm.
             if path = ''/missing/app.log'' then Inl ''no such file or directory'' else Inr 3),
          Close_answer = (\<lambda>tr f.
             if Close_call f \<in> set tr then Some ''file already closed'' else None) \<rparr>"

definition fh0 :: FileHandler where
  "fh0 = \<lparr> FileHandler.Path = ''/var/app.log'', FileHandler.Out = 3,
          FileHandler.Name = ''file'', FileHandler.Level = 2,
          FileHandler.Formatter = DefaultFormatter, FileHandler.mu = Unlocked \<rparr>"

definition sh0 :: StreamHandler where
  "sh0 = \<lparr> StreamHandler.Out = Other_Writer 7, StreamHandler.Formatter = Other_Formatter 0,
          StreamHandler.Name = ''stream'', StreamHandler.Level = 2,
          StreamHandler.mu = Unlocked \<rparr>"

definition sh_new :: StreamHandler where
  "sh_new = \<lparr> StreamHandler.Out = File_Writer os_Stderr,
             StreamHandler.Formatter = TerminalFormatter,
             StreamHandler.Name = ''h'', StreamHandler.Level = 0,
             StreamHandler.mu = Unlocked \<rparr>"

definition w0 :: "unit world" where
  "w0 = \<lparr> records = (\<lambda>a. \<lparr> LogRecord.Level = int a \<rparr>),
          handlers = (\<lambda>a.
             if a = 0 then A_StreamHandler sh_new
             else if a = 1 then A_FileHandler fh0
             else if a = 2 then A_StreamHandler sh0
             else A_NullHandler \<lparr> NullHandler.Name = ''null'' \<rparr>),
          trace = [] \<rparr>"

text \<open>
  An environment in which every formatter fails, and a heap whose records all have
  level \<open>-1\<close>.
\<close>

definition E_fail :: "unit env" where
  "E_fail = E0\<lparr> Format := (\<lambda>f r. (''part'', Some ''boom'')) \<rparr>"

definition w_neg :: "unit world" where
  "w_neg = w0\<lparr> records := (\<lambda>a. \<lparr> LogRecord.Level = - 1 \<rparr>) \<rparr>"

section \<open>What a writer received\<close>

text \<open>The strings written to one writer among the events of a trace, oldest first.\<close>

fun written_to :: "io_Writer \<Rightarrow> event list \<Rightarrow> string list" where
  "written_to out [] = []"
| "written_to out (Write_call x s # evs) =
     (if x = out then s # written_to out evs else written_to out evs)"
| "written_to out (ev # evs) = written_to out evs"

section \<open>Properties\<close>

text \<open>
  C2. For every record and every handler with a threshold, \<^verbatim>\<open>Filter\<close> answers true
  exactly when the record's level is strictly below the handler's level; this holds for
  StreamHandler and for FileHandler alike.
\<close>

theorem Filter_iff_below_threshold:
  "(StreamHandler_Filter sh rec w \<longleftrightarrow> LogRecord.Level (records w rec) < StreamHandler.Level sh)
   \<and> (FileHandler_Filter fh rec w \<longleftrightarrow> LogRecord.Level (records w rec) < FileHandler.Level fh)"
  by (simp add: StreamHandler_Filter_def FileHandler_Filter_def)

subsection \<open>What one emission does\<close>

text \<open>
  \<^verbatim>\<open>Emit\<close> appends to the trace the call of the formatter, then the report on
  \<^verbatim>\<open>os.Stderr\<close> if the formatter failed, then the line on the sink. It does not look
  at the mutex.
\<close>

lemma StreamHandler_Emit_trace:
  "StreamHandler_Emit E self rec w =
     w\<lparr>trace := trace w @
        [Format_call (StreamHandler.Formatter self) rec] @
        (case snd (Format E (StreamHandler.Formatter self) (records w rec)) of
           None \<Rightarrow> []
         | Some e \<Rightarrow> [Write_call (File_Writer os_Stderr) (Format_record_failed e)]) @
        [Write_call (StreamHandler.Out self)
           (fst (Format E (StreamHandler.Formatter self) (records w rec)) @ ''\<newline>'')]\<rparr>"
  by (simp add: StreamHandler_Emit_def fmt_Fprintln_def fmt_Fprintf_failed_def emit_event_def
      split: prod.splits option.splits)

lemma FileHandler_Emit_trace:
  "FileHandler_Emit E self rec w =
     w\<lparr>trace := trace w @
        [Format_call (FileHandler.Formatter self) rec] @
        (case snd (Format E (FileHandler.Formatter self) (records w rec)) of
           None \<Rightarrow> []
         | Some e \<Rightarrow> [Write_call (File_Writer os_Stderr) (Format_record_failed e)]) @
        [Write_call (File_Writer (FileHandler.Out self))
           (fst (Format E (FileHandler.Formatter self) (records w rec)) @ ''\<newline>'')]\<rparr>"
  by (simp add: FileHandler_Emit_def fmt_Fprintln_def fmt_Fprintf_failed_def emit_event_def
      split: prod.splits option.splits)

lemma StreamHandler_Emit_ignores_mu:
  "StreamHandler_Emit E (self\<lparr>StreamHandler.mu := m\<rparr>) rec w = StreamHandler_Emit E self rec w"
  by (simp add: StreamHandler_Emit_def)

lemma FileHandler_Emit_ignores_mu:
  "FileHandler_Emit E (self\<lparr>FileHandler.mu := m\<rparr>) rec w = FileHandler_Emit E self rec w"
  by (simp add: FileHandler_Emit_def)

subsection \<open>Handle is Filter, then Emit under the copy's lock\<close>

lemma StreamHandler_Handle_suppressed:
  "LogRecord.Level (records w rec) < StreamHandler.Level self \<Longrightarrow>
   StreamHandler_Handle E self rec w = Returns w"
  by (simp add: StreamHandler_Handle_def StreamHandler_Filter_def)

lemma StreamHandler_Handle_emits:
  "StreamHandler.Level self \<le> LogRecord.Level (records w rec) \<Longrightarrow>
   StreamHandler.mu self = Unlocked \<Longrightarrow>
   StreamHandler_Handle E self rec w = Returns (StreamHandler_Emit E self rec w)"
  by (simp add: StreamHandler_Handle_def StreamHandler_Filter_def Mutex_Lock_def
      Mutex_Unlock_def StreamHandler_Emit_ignores_mu)

lemma FileHandler_Handle_suppressed:
  "LogRecord.Level (records w rec) < FileHandler.Level self \<Longrightarrow>
   FileHandler_Handle E self rec w = Returns w"
  by (simp add: FileHandler_Handle_def FileHandler_Filter_def)

lemma FileHandler_Handle_emits:
  "FileHandler.Level self \<le> LogRecord.Level (records w rec) \<Longrightarrow>
   FileHandler.mu self = Unlocked \<Longrightarrow>
   FileHandler_Handle E self rec w = Returns (FileHandler_Emit E self rec w)"
  by (simp add: FileHandler_Handle_def FileHandler_Filter_def Mutex_Lock_def
      Mutex_Unlock_def FileHandler_Emit_ignores_mu)

text \<open>
  C3. For a StreamHandler or a FileHandler with threshold \<open>L\<close>, one call of
  \<^verbatim>\<open>Handle\<close> with a record whose level is below \<open>L\<close> returns with the world as it
  was: nothing is written and no formatter is called. One call with a record whose level
  is at least \<open>L\<close> (the handler's lock being free, as it is for every handler that
  comes from a constructor) calls the formatter once and writes the formatter's string
  followed by one newline to the sink, once. That line is all the sink receives, with
  one exception: when the formatter returns an error and the sink is \<^verbatim>\<open>os.Stderr\<close>
  itself, as it is for the handler \<^verbatim>\<open>NewStreamHandler\<close> returns, the report
  \<^verbatim>\<open>Format record failed, [err]\<close> is written to the sink before the line.
\<close>

theorem Handle_threshold:
  "(LogRecord.Level (records w rec) < StreamHandler.Level sh \<longrightarrow>
      StreamHandler_Handle E sh rec w = Returns w)
   \<and> (Format E (StreamHandler.Formatter sh) (records w rec) = (msg, err)
        \<and> StreamHandler.Level sh \<le> LogRecord.Level (records w rec)
        \<and> StreamHandler.mu sh = Unlocked \<longrightarrow>
      StreamHandler_Handle E sh rec w =
        Returns (w\<lparr>trace := trace w @
          [Format_call (StreamHandler.Formatter sh) rec] @
          (case err of
             None \<Rightarrow> []
           | Some e \<Rightarrow> [Write_call (File_Writer os_Stderr) (Format_record_failed e)]) @
          [Write_call (StreamHandler.Out sh) (msg @ ''\<newline>'')]\<rparr>)
      \<and> written_to (StreamHandler.Out sh)
           ([Format_call (StreamHandler.Formatter sh) rec] @
            (case err of
               None \<Rightarrow> []
             | Some e \<Rightarrow> [Write_call (File_Writer os_Stderr) (Format_record_failed e)]) @
            [Write_call (StreamHandler.Out sh) (msg @ ''\<newline>'')]) =
          (case err of
             None \<Rightarrow> [msg @ ''\<newline>'']
           | Some e \<Rightarrow>
               if StreamHandler.Out sh = File_Writer os_Stderr
               then [Format_record_failed e, msg @ ''\<newline>'']
               else [msg @ ''\<newline>'']))
   \<and> (LogRecord.Level (records w rec) < FileHandler.Level fh \<longrightarrow>
      FileHandler_Handle E fh rec w = Returns w)
   \<and> (Format E (FileHandler.Formatter fh) (records w rec) = (msg', err')
        \<and> FileHandler.Level fh \<le> LogRecord.Level (records w rec)
        \<and> FileHandler.mu fh = Unlocked \<longrightarrow>
      FileHandler_Handle E fh rec w =
        Returns (w\<lparr>trace := trace w @
          [Format_call (FileHandler.Formatter fh) rec] @
          (case err' of
             None \<Rightarrow> []
           | Some e \<Rightarrow> [Write_call (File_Writer os_Stderr) (Format_record_failed e)]) @
          [Write_call (File_Writer (FileHandler.Out fh)) (msg' @ ''\<newline>'')]\<rparr>)
      \<and> written_to (File_Writer (FileHandler.Out fh))
           ([Format_call (FileHandler.Formatter fh) rec] @
            (case err' of
               None \<Rightarrow> []
             | Some e \<Rightarrow> [Write_call (File_Writer os_Stderr) (Format_record_failed e)]) @
            [Write_call (File_Writer (FileHandler.Out fh)) (msg' @ ''\<newline>'')]) =
          (case err' of
             None \<Rightarrow> [msg' @ ''\<newline>'']
           | Some e \<Rightarrow>
               if FileHandler.Out fh = os_Stderr
               then [Format_record_failed e, msg' @ ''\<newline>'']
               else [msg' @ ''\<newline>'']))"
proof (intro conjI impI)
  assume "LogRecord.Level (records w rec) < StreamHandler.Level sh"
  then show "StreamHandler_Handle E sh rec w = Returns w"
    by (rule StreamHandler_Handle_suppressed)
next
  assume "LogRecord.Level (records w rec) < FileHandler.Level fh"
  then show "FileHandler_Handle E fh rec w = Returns w"
    by (rule FileHandler_Handle_suppressed)
next
  assume a: "Format E (StreamHandler.Formatter sh) (records w rec) = (msg, err)
        \<and> StreamHandler.Level sh \<le> LogRecord.Level (records w rec)
        \<and> StreamHandler.mu sh = Unlocked"
  then have "StreamHandler_Handle E sh rec w = Returns (StreamHandler_Emit E sh rec w)"
    by (simp add: StreamHandler_Handle_emits)
  with a show "StreamHandler_Handle E sh rec w =
        Returns (w\<lparr>trace := trace w @
          [Format_call (StreamHandler.Formatter sh) rec] @
          (case err of
             None \<Rightarrow> []
           | Some e \<Rightarrow> [Write_call (File_Writer os_Stderr) (Format_record_failed e)]) @
          [Write_call (StreamHandler.Out sh) (msg @ ''\<newline>'')]\<rparr>)"
    by (simp add: StreamHandler_Emit_trace)
next
  show "written_to (StreamHandler.Out sh)
           ([Format_call (StreamHandler.Formatter sh) rec] @
            (case err of
               None \<Rightarrow> []
             | Some e \<Rightarrow> [Write_call (File_Writer os_Stderr) (Format_record_failed e)]) @
            [Write_call (StreamHandler.Out sh) (msg @ ''\<newline>'')]) =
          (case err of
             None \<Rightarrow> [msg @ ''\<newline>'']
           | Some e \<Rightarrow>
               if StreamHandler.Out sh = File_Writer os_Stderr
               then [Format_record_failed e, msg @ ''\<newline>'']
               else [msg @ ''\<newline>''])"
    by (cases err) auto
next
  assume a: "Format E (FileHandler.Formatter fh) (records w rec) = (msg', err')
        \<and> FileHandler.Level fh \<le> LogRecord.Level (records w rec)
        \<and> FileHandler.mu fh = Unlocked"
  then have "FileHandler_Handle E fh rec w = Returns (FileHandler_Emit E fh rec w)"
    by (simp add: FileHandler_Handle_emits)
  with a show "FileHandler_Handle E fh rec w =
        Returns (w\<lparr>trace := trace w @
          [Format_call (FileHandler.Formatter fh) rec] @
          (case err' of
             None \<Rightarrow> []
           | Some e \<Rightarrow> [Write_call (File_Writer os_Stderr) (Format_record_failed e)]) @
          [Write_call (File_Writer (FileHandler.Out fh)) (msg' @ ''\<newline>'')]\<rparr>)"
    by (simp add: FileHandler_Emit_trace)
next
  show "written_to (File_Writer (FileHandler.Out fh))
           ([Format_call (FileHandler.Formatter fh) rec] @
            (case err' of
               None \<Rightarrow> []
             | Some e \<Rightarrow> [Write_call (File_Writer os_Stderr) (Format_record_failed e)]) @
            [Write_call (File_Writer (FileHandler.Out fh)) (msg' @ ''\<newline>'')]) =
          (case err' of
             None \<Rightarrow> [msg' @ ''\<newline>'']
           | Some e \<Rightarrow>
               if FileHandler.Out fh = os_Stderr
               then [Format_record_failed e, msg' @ ''\<newline>'']
               else [msg' @ ''\<newline>''])"
    by (cases err') auto
qed

theorem Handle_threshold_witness:
  "StreamHandler_Handle E0 sh0 1 w0 = Returns w0
   \<and> StreamHandler_Handle E0 sh_new 2 w0 =
       Returns (w0\<lparr>trace := [Format_call TerminalFormatter 2,
                               Write_call (File_Writer os_Stderr) ''!!\<newline>'']\<rparr>)
   \<and> written_to (File_Writer os_Stderr)
        [Format_call TerminalFormatter 2,
         Write_call (File_Writer os_Stderr) ''!!\<newline>''] = [''!!\<newline>'']
   \<and> StreamHandler_Handle E0 sh0 2 w0 =
       Returns (w0\<lparr>trace := [Format_call (Other_Formatter 0) 2,
                               Write_call (File_Writer os_Stderr)
                                 ''Format record failed, [boom]\<newline>'',
                               Write_call (Other_Writer 7) ''part\<newline>'']\<rparr>)
   \<and> written_to (Other_Writer 7)
        [Format_call (Other_Formatter 0) 2,
         Write_call (File_Writer os_Stderr) ''Format record failed, [boom]\<newline>'',
         Write_call (Other_Writer 7) ''part\<newline>''] = [''part\<newline>'']
   \<and> FileHandler_Handle E0 fh0 1 w0 = Returns w0
   \<and> FileHandler_Handle E0 fh0 2 w0 =
       Returns (w0\<lparr>trace := [Format_call DefaultFormatter 2,
                               Write_call (File_Writer 3) ''hello\<newline>'']\<rparr>)
   \<and> written_to (File_Writer 3)
        [Format_call DefaultFormatter 2,
         Write_call (File_Writer 3) ''hello\<newline>''] = [''hello\<newline>'']"
  using Handle_threshold [where E = E0 and w = w0 and rec = 1 and sh = sh0 and fh = fh0
      and msg = "''part''" and err = "Some ''boom''" and msg' = "''hello''" and err' = None]
    Handle_threshold [where E = E0 and w = w0 and rec = 2 and sh = sh_new and fh = fh0
      and msg = "''!!''" and err = None and msg' = "''hello''" and err' = None]
    Handle_threshold [where E = E0 and w = w0 and rec = 2 and sh = sh0 and fh = fh0
      and msg = "''part''" and err = "Some ''boom''" and msg' = "''hello''" and err' = None]
  by (simp add: E0_def w0_def sh0_def sh_new_def fh0_def Format0_def Format_record_failed_def
      os_Stderr_def eval_nat_numeral)

text \<open>
  The sink of the handler that \<^verbatim>\<open>NewStreamHandler\<close> returns is \<^verbatim>\<open>os.Stderr\<close>. When
  its formatter fails on a record that is not suppressed, one call of \<^verbatim>\<open>Handle\<close>
  writes two lines to that sink, the report and the line, not one.
\<close>

theorem Handle_threshold_counterexample:
  "NewStreamHandler ''h'' = Returns sh_new
   \<and> StreamHandler.Level sh_new \<le> LogRecord.Level (records w0 2)
   \<and> Format E_fail (StreamHandler.Formatter sh_new) (records w0 2) = (''part'', Some ''boom'')
   \<and> StreamHandler_Handle E_fail sh_new 2 w0 =
       Returns (w0\<lparr>trace := [Format_call TerminalFormatter 2,
                               Write_call (File_Writer os_Stderr)
                                 ''Format record failed, [boom]\<newline>'',
                               Write_call (File_Writer os_Stderr) ''part\<newline>'']\<rparr>)
   \<and> written_to (StreamHandler.Out sh_new)
        [Format_call TerminalFormatter 2,
         Write_call (File_Writer os_Stderr) ''Format record failed, [boom]\<newline>'',
         Write_call (File_Writer os_Stderr) ''part\<newline>''] =
       [''Format record failed, [boom]\<newline>'', ''part\<newline>'']
   \<and> written_to (StreamHandler.Out sh_new)
        [Format_call TerminalFormatter 2,
         Write_call (File_Writer os_Stderr) ''Format record failed, [boom]\<newline>'',
         Write_call (File_Writer os_Stderr) ''part\<newline>''] \<noteq> [''part\<newline>'']"
  by (simp add: NewStreamHandler_def sh_new_def w0_def E_fail_def E0_def
      StreamHandler_Handle_def StreamHandler_Filter_def Mutex_Lock_def Mutex_Unlock_def
      StreamHandler_Emit_def fmt_Fprintln_def fmt_Fprintf_failed_def emit_event_def
      Format_record_failed_def)

subsection \<open>A failing formatter\<close>

text \<open>
  C4. If the handler's formatter returns a non-nil error, \<^verbatim>\<open>Emit\<close> still returns
  normally (it has no error result and no panic), and so does \<^verbatim>\<open>Handle\<close> for a record
  that is not suppressed: the error is reported on \<^verbatim>\<open>os.Stderr\<close> as
  \<^verbatim>\<open>Format record failed, [err]\<close>, and the string the formatter returned, followed
  by a newline, is still written to the handler's sink. This holds for StreamHandler and
  FileHandler alike.
\<close>

theorem Format_error_not_propagated:
  "(Format E (StreamHandler.Formatter sh) (records w rec) = (msg, Some e) \<longrightarrow>
      StreamHandler_Emit E sh rec w =
        w\<lparr>trace := trace w @
          [Format_call (StreamHandler.Formatter sh) rec,
           Write_call (File_Writer os_Stderr) (''Format record failed, ['' @ e @ '']\<newline>''),
           Write_call (StreamHandler.Out sh) (msg @ ''\<newline>'')]\<rparr>
      \<and> (\<not> StreamHandler_Filter sh rec w \<and> StreamHandler.mu sh = Unlocked \<longrightarrow>
           StreamHandler_Handle E sh rec w = Returns (StreamHandler_Emit E sh rec w)))
   \<and> (Format E (FileHandler.Formatter fh) (records w rec) = (msg', Some e') \<longrightarrow>
      FileHandler_Emit E fh rec w =
        w\<lparr>trace := trace w @
          [Format_call (FileHandler.Formatter fh) rec,
           Write_call (File_Writer os_Stderr) (''Format record failed, ['' @ e' @ '']\<newline>''),
           Write_call (File_Writer (FileHandler.Out fh)) (msg' @ ''\<newline>'')]\<rparr>
      \<and> (\<not> FileHandler_Filter fh rec w \<and> FileHandler.mu fh = Unlocked \<longrightarrow>
           FileHandler_Handle E fh rec w = Returns (FileHandler_Emit E fh rec w)))"
proof (intro conjI impI)
  assume "Format E (StreamHandler.Formatter sh) (records w rec) = (msg, Some e)"
  then show "StreamHandler_Emit E sh rec w =
        w\<lparr>trace := trace w @
          [Format_call (StreamHandler.Formatter sh) rec,
           Write_call (File_Writer os_Stderr) (''Format record failed, ['' @ e @ '']\<newline>''),
           Write_call (StreamHandler.Out sh) (msg @ ''\<newline>'')]\<rparr>"
    by (simp add: StreamHandler_Emit_trace Format_record_failed_def)
next
  assume "\<not> StreamHandler_Filter sh rec w \<and> StreamHandler.mu sh = Unlocked"
  then have "StreamHandler.Level sh \<le> LogRecord.Level (records w rec)"
    and "StreamHandler.mu sh = Unlocked"
    by (simp_all add: StreamHandler_Filter_def split: if_splits)
  then show "StreamHandler_Handle E sh rec w = Returns (StreamHandler_Emit E sh rec w)"
    by (rule StreamHandler_Handle_emits)
next
  assume "Format E (FileHandler.Formatter fh) (records w rec) = (msg', Some e')"
  then show "FileHandler_Emit E fh rec w =
        w\<lparr>trace := trace w @
          [Format_call (FileHandler.Formatter fh) rec,
           Write_call (File_Writer os_Stderr) (''Format record failed, ['' @ e' @ '']\<newline>''),
           Write_call (File_Writer (FileHandler.Out fh)) (msg' @ ''\<newline>'')]\<rparr>"
    by (simp add: FileHandler_Emit_trace Format_record_failed_def)
next
  assume "\<not> FileHandler_Filter fh rec w \<and> FileHandler.mu fh = Unlocked"
  then have "FileHandler.Level fh \<le> LogRecord.Level (records w rec)"
    and "FileHandler.mu fh = Unlocked"
    by (simp_all add: FileHandler_Filter_def split: if_splits)
  then show "FileHandler_Handle E fh rec w = Returns (FileHandler_Emit E fh rec w)"
    by (rule FileHandler_Handle_emits)
qed

theorem Format_error_not_propagated_witness:
  "Format E0 (Other_Formatter 0) (records w0 2) = (''part'', Some ''boom'')
   \<and> StreamHandler_Emit E0 sh0 2 w0 =
       w0\<lparr>trace := [Format_call (Other_Formatter 0) 2,
                      Write_call (File_Writer os_Stderr) ''Format record failed, [boom]\<newline>'',
                      Write_call (Other_Writer 7) ''part\<newline>'']\<rparr>
   \<and> StreamHandler_Handle E0 sh0 2 w0 =
       Returns (w0\<lparr>trace := [Format_call (Other_Formatter 0) 2,
                      Write_call (File_Writer os_Stderr) ''Format record failed, [boom]\<newline>'',
                      Write_call (Other_Writer 7) ''part\<newline>'']\<rparr>)
   \<and> FileHandler_Emit E0 (fh0\<lparr>FileHandler.Formatter := Other_Formatter 1\<rparr>) 2 w0 =
       w0\<lparr>trace := [Format_call (Other_Formatter 1) 2,
                      Write_call (File_Writer os_Stderr) ''Format record failed, [boom]\<newline>'',
                      Write_call (File_Writer 3) ''part\<newline>'']\<rparr>
   \<and> FileHandler_Handle E0 (fh0\<lparr>FileHandler.Formatter := Other_Formatter 1\<rparr>) 2 w0 =
       Returns (w0\<lparr>trace := [Format_call (Other_Formatter 1) 2,
                      Write_call (File_Writer os_Stderr) ''Format record failed, [boom]\<newline>'',
                      Write_call (File_Writer 3) ''part\<newline>'']\<rparr>)"
  using Format_error_not_propagated [where E = E0 and w = w0 and rec = 2 and sh = sh0
      and fh = "fh0\<lparr>FileHandler.Formatter := Other_Formatter 1\<rparr>"
      and msg = "''part''" and e = "''boom''" and msg' = "''part''" and e' = "''boom''"]
  by (simp add: E0_def w0_def sh0_def fh0_def Format0_def StreamHandler_Filter_def
      FileHandler_Filter_def)

subsection \<open>NullHandler\<close>

text \<open>
  C5. For every record, \<^verbatim>\<open>NullHandler.Handle\<close> and \<^verbatim>\<open>NullHandler.Emit\<close> leave the
  world as it was (no write on any sink, no call of a formatter), and
  \<^verbatim>\<open>NullHandler.Filter\<close> answers true; the same holds when the NullHandler is called
  through the interface.
\<close>

theorem NullHandler_does_nothing:
  "NullHandler_Handle nh rec w = w
   \<and> NullHandler_Filter nh rec w = True
   \<and> NullHandler_Emit nh rec w = w
   \<and> Handler_Handle E (A_NullHandler nh) rec w = Returns w
   \<and> Handler_Emit E (A_NullHandler nh) rec w = w
   \<and> Handler_Filter (A_NullHandler nh) rec w = True"
  by (simp add: NullHandler_Handle_def NullHandler_Filter_def NullHandler_Emit_def)

subsection \<open>Close\<close>

text \<open>
  C8. \<^verbatim>\<open>StreamHandler.Close\<close> and \<^verbatim>\<open>NullHandler.Close\<close> return nil and do nothing
  (the sink is not closed). \<^verbatim>\<open>FileHandler.Close\<close> closes the handler's file once and
  returns exactly what that close answered, an error or nil, without a second attempt.
  The same holds for calls through the interface.
\<close>

theorem Close_results:
  "StreamHandler_Close sh w = (None, w)
   \<and> NullHandler_Close nh w = (None, w)
   \<and> FileHandler_Close E fh w =
       (Close_answer E (trace w) (FileHandler.Out fh),
        w\<lparr>trace := trace w @ [Close_call (FileHandler.Out fh)]\<rparr>)
   \<and> Handler_Close E (A_StreamHandler sh) w = (None, w)
   \<and> Handler_Close E (A_NullHandler nh) w = (None, w)
   \<and> Handler_Close E (A_FileHandler fh) w =
       (Close_answer E (trace w) (FileHandler.Out fh),
        w\<lparr>trace := trace w @ [Close_call (FileHandler.Out fh)]\<rparr>)"
  by (simp add: StreamHandler_Close_def NullHandler_Close_def FileHandler_Close_def
      os_File_Close_def emit_event_def)

subsection \<open>How NewFileHandler opens its file\<close>

lemma open_flags: "(O_WRONLY OR O_APPEND OR O_CREATE) = 1089"
  by (simp add: O_WRONLY_def O_APPEND_def O_CREATE_def)

lemma perm_0660: "octal [0, 6, 6, 0] = 432"
  by (simp add: octal_def)

text \<open>
  C7. \<^verbatim>\<open>NewFileHandler\<close> opens its path once, with flags whose access mode is
  write-only, with the append and the create flag set and neither truncate nor exclusive,
  and with permission 0660: read (4) and write (2) without execute (1) for the owner and
  for the group, nothing for others, and no bit above the nine permission bits.
\<close>

theorem NewFileHandler_open_mode:
  "trace (snd (NewFileHandler E name path w)) =
     trace w @ [OpenFile_call path (O_WRONLY OR O_APPEND OR O_CREATE) (octal [0, 6, 6, 0])]
   \<and> (O_WRONLY OR O_APPEND OR O_CREATE) AND (O_RDONLY OR O_WRONLY OR O_RDWR) = O_WRONLY
   \<and> (O_WRONLY OR O_APPEND OR O_CREATE) AND O_APPEND = O_APPEND
   \<and> (O_WRONLY OR O_APPEND OR O_CREATE) AND O_CREATE = O_CREATE
   \<and> (O_WRONLY OR O_APPEND OR O_CREATE) AND (O_TRUNC OR O_EXCL) = 0
   \<and> drop_bit 6 (octal [0, 6, 6, 0]) AND 7 = 4 + 2
   \<and> drop_bit 3 (octal [0, 6, 6, 0]) AND 7 = 4 + 2
   \<and> octal [0, 6, 6, 0] AND 7 = 0
   \<and> drop_bit 9 (octal [0, 6, 6, 0]) = 0"
  apply (intro conjI)
  apply (simp add: NewFileHandler_def os_OpenFile_def emit_event_def split: sum.splits)
  apply (simp_all add: O_WRONLY_def O_APPEND_def O_CREATE_def O_RDONLY_def O_RDWR_def O_TRUNC_def O_EXCL_def octal_def)
  done

subsection \<open>Construction\<close>

text \<open>
  C6. If the operating system answers the open with an error, \<^verbatim>\<open>NewFileHandler\<close>
  returns nothing, neither a handler nor an error value: it panics, with the error
  \<^verbatim>\<open>can not open file\<close> and the path. If the open succeeds, it returns a handler on
  the opened file. \<^verbatim>\<open>NewStreamHandler\<close> always returns a handler. (For NullHandler
  there is no constructor to fail.)
\<close>

theorem constructors_failure:
  "(OpenFile_answer E (trace w) path (O_WRONLY OR O_APPEND OR O_CREATE) (octal [0, 6, 6, 0]) = Inl err \<longrightarrow>
      fst (NewFileHandler E name path w) = Panics (''can not open file '' @ path))
   \<and> (OpenFile_answer E (trace w) path (O_WRONLY OR O_APPEND OR O_CREATE) (octal [0, 6, 6, 0]) = Inr f \<longrightarrow>
      fst (NewFileHandler E name path w) =
        Returns \<lparr> FileHandler.Path = path, FileHandler.Out = f, FileHandler.Name = name,
                  FileHandler.Level = 0, FileHandler.Formatter = DefaultFormatter,
                  FileHandler.mu = Unlocked \<rparr>)
   \<and> (\<exists>sh. NewStreamHandler name = Returns sh)"
  by (simp add: NewFileHandler_def os_OpenFile_def NewStreamHandler_def)

theorem constructors_failure_witness:
  "fst (NewFileHandler E0 ''f'' ''/missing/app.log'' w0) = Panics ''can not open file /missing/app.log''
   \<and> fst (NewFileHandler E0 ''f'' ''/var/app.log'' w0) =
        Returns \<lparr> FileHandler.Path = ''/var/app.log'', FileHandler.Out = 3, FileHandler.Name = ''f'',
                  FileHandler.Level = 0, FileHandler.Formatter = DefaultFormatter,
                  FileHandler.mu = Unlocked \<rparr>"
  using constructors_failure [where E = E0 and w = w0 and path = "''/missing/app.log''"
      and name = "''f''" and err = "''no such file or directory''"]
    constructors_failure [where E = E0 and w = w0 and path = "''/var/app.log''"
      and name = "''f''" and f = 3]
  by (simp add: E0_def)

text \<open>
  C9. The handler that \<^verbatim>\<open>NewStreamHandler\<close> returns has threshold 0, the process's
  standard error stream as sink and the terminal formatter; the handler that
  \<^verbatim>\<open>NewFileHandler\<close> returns has threshold 0 and the default formatter, which is not
  the terminal one. Threshold 0 does not mean that everything is emitted: these handlers
  suppress exactly the records of negative level and emit every record of level 0 or
  more. Both come with a free lock.
\<close>

theorem constructor_defaults:
  "(NewStreamHandler name = Returns sh \<longrightarrow>
      StreamHandler.Level sh = 0
      \<and> StreamHandler.Out sh = File_Writer os_Stderr
      \<and> StreamHandler.Formatter sh = TerminalFormatter
      \<and> StreamHandler.Name sh = name
      \<and> StreamHandler.mu sh = Unlocked
      \<and> (StreamHandler_Filter sh rec w \<longleftrightarrow> LogRecord.Level (records w rec) < 0))
   \<and> (fst (NewFileHandler E name' path w') = Returns fh \<longrightarrow>
      FileHandler.Level fh = 0
      \<and> FileHandler.Formatter fh = DefaultFormatter
      \<and> FileHandler.Formatter fh \<noteq> TerminalFormatter
      \<and> FileHandler.Name fh = name'
      \<and> FileHandler.Path fh = path
      \<and> FileHandler.mu fh = Unlocked
      \<and> (FileHandler_Filter fh rec w \<longleftrightarrow> LogRecord.Level (records w rec) < 0))"
  by (auto simp add: NewStreamHandler_def NewFileHandler_def os_OpenFile_def
      StreamHandler_Filter_def FileHandler_Filter_def split: sum.splits)

theorem constructor_defaults_witness:
  "NewStreamHandler ''h'' = Returns sh_new
   \<and> StreamHandler.Level sh_new = 0
   \<and> StreamHandler.Out sh_new = File_Writer os_Stderr
   \<and> StreamHandler.Formatter sh_new = TerminalFormatter
   \<and> \<not> StreamHandler_Filter sh_new 0 w0
   \<and> StreamHandler_Filter sh_new 0 w_neg
   \<and> fst (NewFileHandler E0 ''file'' ''/var/app.log'' w0) = Returns (fh0\<lparr>FileHandler.Level := 0\<rparr>)
   \<and> FileHandler.Formatter (fh0\<lparr>FileHandler.Level := 0\<rparr>) = DefaultFormatter
   \<and> \<not> FileHandler_Filter (fh0\<lparr>FileHandler.Level := 0\<rparr>) 0 w0
   \<and> FileHandler_Filter (fh0\<lparr>FileHandler.Level := 0\<rparr>) 0 w_neg"
  using constructor_defaults [where name = "''h''" and sh = sh_new and w = w0 and rec = 0
      and E = E0 and name' = "''file''" and path = "''/var/app.log''" and w' = w0
      and fh = "fh0\<lparr>FileHandler.Level := 0\<rparr>"]
    constructor_defaults [where name = "''h''" and sh = sh_new and w = w_neg and rec = 0
      and E = E0 and name' = "''file''" and path = "''/var/app.log''" and w' = w0
      and fh = "fh0\<lparr>FileHandler.Level := 0\<rparr>"]
  by (simp add: NewStreamHandler_def sh_new_def NewFileHandler_def os_OpenFile_def E0_def
      fh0_def w0_def w_neg_def)

text \<open>
  A record of level \<open>-1\<close> is suppressed by both default handlers: \<^verbatim>\<open>Handle\<close>
  returns without a formatter call or a write.
\<close>

theorem constructor_defaults_counterexample:
  "NewStreamHandler ''h'' = Returns sh_new
   \<and> LogRecord.Level (records w_neg 0) = - 1
   \<and> StreamHandler_Filter sh_new 0 w_neg
   \<and> StreamHandler_Handle E0 sh_new 0 w_neg = Returns w_neg
   \<and> fst (NewFileHandler E0 ''file'' ''/var/app.log'' w_neg) =
       Returns (fh0\<lparr>FileHandler.Level := 0\<rparr>)
   \<and> FileHandler_Filter (fh0\<lparr>FileHandler.Level := 0\<rparr>) 0 w_neg
   \<and> FileHandler_Handle E0 (fh0\<lparr>FileHandler.Level := 0\<rparr>) 0 w_neg = Returns w_neg"
  by (simp add: NewStreamHandler_def sh_new_def NewFileHandler_def os_OpenFile_def E0_def
      fh0_def w0_def w_neg_def StreamHandler_Filter_def FileHandler_Filter_def
      StreamHandler_Handle_def FileHandler_Handle_def)

subsection \<open>What the operations leave alone\<close>

text \<open>
  No operation writes to a record or to a stored handler: \<^verbatim>\<open>Emit\<close> and \<^verbatim>\<open>Handle\<close>
  only extend the trace. (\<^verbatim>\<open>Filter\<close> returns a truth value and no world at all.)
\<close>

lemma StreamHandler_Emit_frame:
  "records (StreamHandler_Emit E self rec w) = records w"
  "handlers (StreamHandler_Emit E self rec w) = handlers w"
  by (simp_all add: StreamHandler_Emit_trace)

lemma FileHandler_Emit_frame:
  "records (FileHandler_Emit E self rec w) = records w"
  "handlers (FileHandler_Emit E self rec w) = handlers w"
  by (simp_all add: FileHandler_Emit_trace)

lemma Handler_Emit_frame:
  "records (Handler_Emit E h rec w) = records w \<and> handlers (Handler_Emit E h rec w) = handlers w"
  by (cases h) (simp_all add: NullHandler_Emit_def StreamHandler_Emit_frame FileHandler_Emit_frame)

lemma StreamHandler_Handle_frame:
  "StreamHandler_Handle E self rec w = Returns w1 \<Longrightarrow>
   records w1 = records w \<and> handlers w1 = handlers w"
  by (auto simp add: StreamHandler_Handle_def Let_def StreamHandler_Emit_frame
      split: if_splits option.splits sum.splits)

lemma FileHandler_Handle_frame:
  "FileHandler_Handle E self rec w = Returns w1 \<Longrightarrow>
   records w1 = records w \<and> handlers w1 = handlers w"
  by (auto simp add: FileHandler_Handle_def Let_def FileHandler_Emit_frame
      split: if_splits option.splits sum.splits)

lemma Handler_Handle_frame:
  "Handler_Handle E h rec w = Returns w1 \<Longrightarrow>
   records w1 = records w \<and> handlers w1 = handlers w"
  by (cases h)
    (auto simp add: NullHandler_Handle_def dest: StreamHandler_Handle_frame FileHandler_Handle_frame)

text \<open>Two calls in a row with the same record each add the same events, ending in the line.\<close>

lemma StreamHandler_Handle_twice:
  assumes "\<not> StreamHandler_Filter sh rec w" and "StreamHandler.mu sh = Unlocked"
  shows "\<exists>w1 w2 evs line.
           StreamHandler_Handle E sh rec w = Returns w1
           \<and> StreamHandler_Handle E sh rec w1 = Returns w2
           \<and> trace w1 = trace w @ evs @ [Write_call (StreamHandler.Out sh) (line @ ''\<newline>'')]
           \<and> trace w2 = trace w1 @ evs @ [Write_call (StreamHandler.Out sh) (line @ ''\<newline>'')]"
proof -
  let ?w1 = "StreamHandler_Emit E sh rec w"
  let ?w2 = "StreamHandler_Emit E sh rec ?w1"
  from assms have lev: "StreamHandler.Level sh \<le> LogRecord.Level (records w rec)"
    by (simp add: StreamHandler_Filter_def split: if_splits)
  then have 1: "StreamHandler_Handle E sh rec w = Returns ?w1"
    using assms(2) by (rule StreamHandler_Handle_emits)
  have "StreamHandler.Level sh \<le> LogRecord.Level (records ?w1 rec)"
    using lev by (simp add: StreamHandler_Emit_frame)
  then have 2: "StreamHandler_Handle E sh rec ?w1 = Returns ?w2"
    using assms(2) by (rule StreamHandler_Handle_emits)
  have 3: "trace ?w1 = trace w @
      ([Format_call (StreamHandler.Formatter sh) rec] @
        (case snd (Format E (StreamHandler.Formatter sh) (records w rec)) of
           None \<Rightarrow> []
         | Some e \<Rightarrow> [Write_call (File_Writer os_Stderr) (Format_record_failed e)])) @
      [Write_call (StreamHandler.Out sh)
         (fst (Format E (StreamHandler.Formatter sh) (records w rec)) @ ''\<newline>'')]"
    by (simp add: StreamHandler_Emit_trace)
  have 4: "trace ?w2 = trace ?w1 @
      ([Format_call (StreamHandler.Formatter sh) rec] @
        (case snd (Format E (StreamHandler.Formatter sh) (records w rec)) of
           None \<Rightarrow> []
         | Some e \<Rightarrow> [Write_call (File_Writer os_Stderr) (Format_record_failed e)])) @
      [Write_call (StreamHandler.Out sh)
         (fst (Format E (StreamHandler.Formatter sh) (records w rec)) @ ''\<newline>'')]"
    by (simp add: StreamHandler_Emit_trace)
  from 1 2 3 4 show ?thesis by blast
qed

lemma FileHandler_Handle_twice:
  assumes "\<not> FileHandler_Filter fh rec w" and "FileHandler.mu fh = Unlocked"
  shows "\<exists>w1 w2 evs line.
           FileHandler_Handle E fh rec w = Returns w1
           \<and> FileHandler_Handle E fh rec w1 = Returns w2
           \<and> trace w1 = trace w @ evs @ [Write_call (File_Writer (FileHandler.Out fh)) (line @ ''\<newline>'')]
           \<and> trace w2 = trace w1 @ evs @ [Write_call (File_Writer (FileHandler.Out fh)) (line @ ''\<newline>'')]"
proof -
  let ?w1 = "FileHandler_Emit E fh rec w"
  let ?w2 = "FileHandler_Emit E fh rec ?w1"
  from assms have lev: "FileHandler.Level fh \<le> LogRecord.Level (records w rec)"
    by (simp add: FileHandler_Filter_def split: if_splits)
  then have 1: "FileHandler_Handle E fh rec w = Returns ?w1"
    using assms(2) by (rule FileHandler_Handle_emits)
  have "FileHandler.Level fh \<le> LogRecord.Level (records ?w1 rec)"
    using lev by (simp add: FileHandler_Emit_frame)
  then have 2: "FileHandler_Handle E fh rec ?w1 = Returns ?w2"
    using assms(2) by (rule FileHandler_Handle_emits)
  have 3: "trace ?w1 = trace w @
      ([Format_call (FileHandler.Formatter fh) rec] @
        (case snd (Format E (FileHandler.Formatter fh) (records w rec)) of
           None \<Rightarrow> []
         | Some e \<Rightarrow> [Write_call (File_Writer os_Stderr) (Format_record_failed e)])) @
      [Write_call (File_Writer (FileHandler.Out fh))
         (fst (Format E (FileHandler.Formatter fh) (records w rec)) @ ''\<newline>'')]"
    by (simp add: FileHandler_Emit_trace)
  have 4: "trace ?w2 = trace ?w1 @
      ([Format_call (FileHandler.Formatter fh) rec] @
        (case snd (Format E (FileHandler.Formatter fh) (records w rec)) of
           None \<Rightarrow> []
         | Some e \<Rightarrow> [Write_call (File_Writer os_Stderr) (Format_record_failed e)])) @
      [Write_call (File_Writer (FileHandler.Out fh))
         (fst (Format E (FileHandler.Formatter fh) (records w rec)) @ ''\<newline>'')]"
    by (simp add: FileHandler_Emit_trace)
  from 1 2 3 4 show ?thesis by blast
qed

text \<open>
  C10. For every handler stored at an address \<open>a\<close> and every record, \<^verbatim>\<open>Emit\<close> and
  \<^verbatim>\<open>Handle\<close> called on that handler leave all records and all stored handlers, every
  field of them, as they were (the receiver is a copy). For a StreamHandler or a
  FileHandler with a free lock and a record that is not suppressed, a first and a second
  call of \<^verbatim>\<open>Handle\<close> both return, records and handlers are still unchanged after
  both, and each call appends the same events to the trace, the last of them the Write
  of the line on the sink: the sink gets the line twice.
\<close>

theorem operations_frame:
  "records (Handler_Emit E (handlers w a) rec w) = records w
   \<and> handlers (Handler_Emit E (handlers w a) rec w) = handlers w
   \<and> (Handler_Handle E (handlers w a) rec w = Returns w1 \<longrightarrow>
        records w1 = records w \<and> handlers w1 = handlers w)
   \<and> (handlers w a = A_StreamHandler sh \<and> \<not> Handler_Filter (handlers w a) rec w
        \<and> StreamHandler.mu sh = Unlocked \<longrightarrow>
        (\<exists>w1 w2 evs line.
           Handler_Handle E (handlers w a) rec w = Returns w1
           \<and> Handler_Handle E (handlers w1 a) rec w1 = Returns w2
           \<and> records w2 = records w \<and> handlers w2 = handlers w
           \<and> trace w1 = trace w @ evs @ [Write_call (StreamHandler.Out sh) (line @ ''\<newline>'')]
           \<and> trace w2 = trace w1 @ evs @ [Write_call (StreamHandler.Out sh) (line @ ''\<newline>'')]))
   \<and> (handlers w a = A_FileHandler fh \<and> \<not> Handler_Filter (handlers w a) rec w
        \<and> FileHandler.mu fh = Unlocked \<longrightarrow>
        (\<exists>w1 w2 evs line.
           Handler_Handle E (handlers w a) rec w = Returns w1
           \<and> Handler_Handle E (handlers w1 a) rec w1 = Returns w2
           \<and> records w2 = records w \<and> handlers w2 = handlers w
           \<and> trace w1 = trace w @ evs @ [Write_call (File_Writer (FileHandler.Out fh)) (line @ ''\<newline>'')]
           \<and> trace w2 = trace w1 @ evs @ [Write_call (File_Writer (FileHandler.Out fh)) (line @ ''\<newline>'')]))"
proof (intro conjI impI)
  show "records (Handler_Emit E (handlers w a) rec w) = records w"
    by (simp add: Handler_Emit_frame)
  show "handlers (Handler_Emit E (handlers w a) rec w) = handlers w"
    by (simp add: Handler_Emit_frame)
next
  assume "Handler_Handle E (handlers w a) rec w = Returns w1"
  then show "records w1 = records w" "handlers w1 = handlers w"
    by (simp_all add: Handler_Handle_frame)
next
  assume a: "handlers w a = A_StreamHandler sh \<and> \<not> Handler_Filter (handlers w a) rec w
        \<and> StreamHandler.mu sh = Unlocked"
  then have "\<not> StreamHandler_Filter sh rec w" and "StreamHandler.mu sh = Unlocked"
    by auto
  from StreamHandler_Handle_twice [OF this, of E]
  obtain w1 w2 evs line where
    h: "StreamHandler_Handle E sh rec w = Returns w1"
       "StreamHandler_Handle E sh rec w1 = Returns w2"
       "trace w1 = trace w @ evs @ [Write_call (StreamHandler.Out sh) (line @ ''\<newline>'')]"
       "trace w2 = trace w1 @ evs @ [Write_call (StreamHandler.Out sh) (line @ ''\<newline>'')]"
    by blast
  from h(1) have f1: "records w1 = records w \<and> handlers w1 = handlers w"
    by (rule StreamHandler_Handle_frame)
  from h(2) have f2: "records w2 = records w1 \<and> handlers w2 = handlers w1"
    by (rule StreamHandler_Handle_frame)
  from a h f1 f2 have
    "Handler_Handle E (handlers w a) rec w = Returns w1
     \<and> Handler_Handle E (handlers w1 a) rec w1 = Returns w2
     \<and> records w2 = records w \<and> handlers w2 = handlers w
     \<and> trace w1 = trace w @ evs @ [Write_call (StreamHandler.Out sh) (line @ ''\<newline>'')]
     \<and> trace w2 = trace w1 @ evs @ [Write_call (StreamHandler.Out sh) (line @ ''\<newline>'')]"
    by simp
  then show "\<exists>w1 w2 evs line.
           Handler_Handle E (handlers w a) rec w = Returns w1
           \<and> Handler_Handle E (handlers w1 a) rec w1 = Returns w2
           \<and> records w2 = records w \<and> handlers w2 = handlers w
           \<and> trace w1 = trace w @ evs @ [Write_call (StreamHandler.Out sh) (line @ ''\<newline>'')]
           \<and> trace w2 = trace w1 @ evs @ [Write_call (StreamHandler.Out sh) (line @ ''\<newline>'')]"
    by blast
next
  assume a: "handlers w a = A_FileHandler fh \<and> \<not> Handler_Filter (handlers w a) rec w
        \<and> FileHandler.mu fh = Unlocked"
  then have "\<not> FileHandler_Filter fh rec w" and "FileHandler.mu fh = Unlocked"
    by auto
  from FileHandler_Handle_twice [OF this, of E]
  obtain w1 w2 evs line where
    h: "FileHandler_Handle E fh rec w = Returns w1"
       "FileHandler_Handle E fh rec w1 = Returns w2"
       "trace w1 = trace w @ evs @ [Write_call (File_Writer (FileHandler.Out fh)) (line @ ''\<newline>'')]"
       "trace w2 = trace w1 @ evs @ [Write_call (File_Writer (FileHandler.Out fh)) (line @ ''\<newline>'')]"
    by blast
  from h(1) have f1: "records w1 = records w \<and> handlers w1 = handlers w"
    by (rule FileHandler_Handle_frame)
  from h(2) have f2: "records w2 = records w1 \<and> handlers w2 = handlers w1"
    by (rule FileHandler_Handle_frame)
  from a h f1 f2 have
    "Handler_Handle E (handlers w a) rec w = Returns w1
     \<and> Handler_Handle E (handlers w1 a) rec w1 = Returns w2
     \<and> records w2 = records w \<and> handlers w2 = handlers w
     \<and> trace w1 = trace w @ evs @ [Write_call (File_Writer (FileHandler.Out fh)) (line @ ''\<newline>'')]
     \<and> trace w2 = trace w1 @ evs @ [Write_call (File_Writer (FileHandler.Out fh)) (line @ ''\<newline>'')]"
    by simp
  then show "\<exists>w1 w2 evs line.
           Handler_Handle E (handlers w a) rec w = Returns w1
           \<and> Handler_Handle E (handlers w1 a) rec w1 = Returns w2
           \<and> records w2 = records w \<and> handlers w2 = handlers w
           \<and> trace w1 = trace w @ evs @ [Write_call (File_Writer (FileHandler.Out fh)) (line @ ''\<newline>'')]
           \<and> trace w2 = trace w1 @ evs @ [Write_call (File_Writer (FileHandler.Out fh)) (line @ ''\<newline>'')]"
    by blast
qed

theorem operations_frame_witness:
  "(handlers w0 0 = A_StreamHandler sh_new \<and> \<not> Handler_Filter (handlers w0 0) 2 w0
      \<and> StreamHandler.mu sh_new = Unlocked)
   \<and> records (Handler_Emit E0 (handlers w0 0) 2 w0) = records w0
   \<and> handlers (Handler_Emit E0 (handlers w0 0) 2 w0) = handlers w0
   \<and> (\<exists>w1 w2 evs line.
         Handler_Handle E0 (handlers w0 0) 2 w0 = Returns w1
         \<and> Handler_Handle E0 (handlers w1 0) 2 w1 = Returns w2
         \<and> records w2 = records w0 \<and> handlers w2 = handlers w0
         \<and> trace w1 = trace w0 @ evs @ [Write_call (StreamHandler.Out sh_new) (line @ ''\<newline>'')]
         \<and> trace w2 = trace w1 @ evs @ [Write_call (StreamHandler.Out sh_new) (line @ ''\<newline>'')])
   \<and> (handlers w0 1 = A_FileHandler fh0 \<and> \<not> Handler_Filter (handlers w0 1) 2 w0
      \<and> FileHandler.mu fh0 = Unlocked)
   \<and> (\<exists>w1 w2 evs line.
         Handler_Handle E0 (handlers w0 1) 2 w0 = Returns w1
         \<and> Handler_Handle E0 (handlers w1 1) 2 w1 = Returns w2
         \<and> records w2 = records w0 \<and> handlers w2 = handlers w0
         \<and> trace w1 = trace w0 @ evs @ [Write_call (File_Writer (FileHandler.Out fh0)) (line @ ''\<newline>'')]
         \<and> trace w2 = trace w1 @ evs @ [Write_call (File_Writer (FileHandler.Out fh0)) (line @ ''\<newline>'')])"
proof -
  have s: "handlers w0 0 = A_StreamHandler sh_new \<and> \<not> Handler_Filter (handlers w0 0) 2 w0
      \<and> StreamHandler.mu sh_new = Unlocked"
    by (simp add: w0_def sh_new_def StreamHandler_Filter_def)
  have f: "handlers w0 1 = A_FileHandler fh0 \<and> \<not> Handler_Filter (handlers w0 1) 2 w0
      \<and> FileHandler.mu fh0 = Unlocked"
    by (simp add: w0_def fh0_def FileHandler_Filter_def)
  note t0 = operations_frame [where E = E0 and w = w0 and a = 0 and rec = 2 and sh = sh_new
      and fh = fh0 and ?w1.0 = w0]
  note t1 = operations_frame [where E = E0 and w = w0 and a = 1 and rec = 2 and sh = sh_new
      and fh = fh0 and ?w1.0 = w0]
  from t0 s have a: "records (Handler_Emit E0 (handlers w0 0) 2 w0) = records w0
   \<and> handlers (Handler_Emit E0 (handlers w0 0) 2 w0) = handlers w0
   \<and> (\<exists>w1 w2 evs line.
         Handler_Handle E0 (handlers w0 0) 2 w0 = Returns w1
         \<and> Handler_Handle E0 (handlers w1 0) 2 w1 = Returns w2
         \<and> records w2 = records w0 \<and> handlers w2 = handlers w0
         \<and> trace w1 = trace w0 @ evs @ [Write_call (StreamHandler.Out sh_new) (line @ ''\<newline>'')]
         \<and> trace w2 = trace w1 @ evs @ [Write_call (StreamHandler.Out sh_new) (line @ ''\<newline>'')])"
    by blast
  from t1 f have b: "\<exists>w1 w2 evs line.
         Handler_Handle E0 (handlers w0 1) 2 w0 = Returns w1
         \<and> Handler_Handle E0 (handlers w1 1) 2 w1 = Returns w2
         \<and> records w2 = records w0 \<and> handlers w2 = handlers w0
         \<and> trace w1 = trace w0 @ evs @ [Write_call (File_Writer (FileHandler.Out fh0)) (line @ ''\<newline>'')]
         \<and> trace w2 = trace w1 @ evs @ [Write_call (File_Writer (FileHandler.Out fh0)) (line @ ''\<newline>'')]"
    by blast
  from s a f b show ?thesis by blast
qed

subsection \<open>Concurrent callers\<close>

text \<open>
  Run alone, a goroutine that calls \<^verbatim>\<open>h.Handle(record)\<close> ends where
  \<^verbatim>\<open>StreamHandler_Handle\<close> says, so the steps are those of the method.
\<close>

lemma one_goroutine_is_Handle:
  assumes "handlers w h = A_StreamHandler sh"
    and "StreamHandler_Handle E sh rec w = Returns w1"
  shows "\<exists>sched g. run E sched \<lparr> heap = w, goroutines = [start h rec] \<rparr>
                      = Some \<lparr> heap = w1, goroutines = [g] \<rparr> \<and> g_pc g = Returned"
proof (cases "StreamHandler_Filter sh rec w")
  case True
  with assms(2) have "w1 = w"
    by (simp add: StreamHandler_Handle_def)
  with True assms(1) have
    "\<exists>g. run E [0, 0] \<lparr> heap = w, goroutines = [start h rec] \<rparr>
           = Some \<lparr> heap = w1, goroutines = [g] \<rparr> \<and> g_pc g = Returned"
    by (simp add: step_def goroutine_step_def start_def)
  then show ?thesis by blast
next
  case False
  with assms(2) have m: "StreamHandler.mu sh = Unlocked"
    by (cases "StreamHandler.mu sh") (simp_all add: StreamHandler_Handle_def Mutex_Lock_def)
  with False assms(2) have w1: "w1 = StreamHandler_Emit E sh rec w"
    by (simp add: StreamHandler_Handle_def Mutex_Lock_def Mutex_Unlock_def
        StreamHandler_Emit_ignores_mu)
  from False m assms(1) have
    "\<exists>g. run E [0, 0, 0, 0, 0, 0] \<lparr> heap = w, goroutines = [start h rec] \<rparr>
           = Some \<lparr> heap = StreamHandler_Emit E sh rec w, goroutines = [g] \<rparr> \<and> g_pc g = Returned"
    by (simp add: step_def goroutine_step_def start_def Mutex_Lock_def Mutex_Unlock_def
        StreamHandler_Emit_def Let_def split: prod.splits)
  with w1 show ?thesis by blast
qed

text \<open>
  No step of any goroutine writes to a stored handler, its mutex included: the
  \<^verbatim>\<open>Lock\<close> and \<^verbatim>\<open>Unlock\<close> of \<^verbatim>\<open>Handle\<close> act on the receiver, the goroutine's
  own copy.
\<close>

lemma goroutine_step_frame:
  "goroutine_step E g w = Some (g', w') \<Longrightarrow>
   handlers w' = handlers w \<and> records w' = records w"
  by (auto simp add: goroutine_step_def Let_def fmt_Fprintln_def fmt_Fprintf_failed_def
      emit_event_def split: pc.splits Handler.splits if_splits option.splits sum.splits prod.splits)

lemma step_frame:
  "step E i c = Some c' \<Longrightarrow>
   handlers (heap c') = handlers (heap c) \<and> records (heap c') = records (heap c)"
  by (auto simp add: step_def split: if_splits option.splits dest: goroutine_step_frame)

text \<open>
  Hence a goroutine never waits: from the call on a handler whose own mutex is free it
  reaches \<^verbatim>\<open>Emit\<close> (or returns, the record being suppressed) in three steps of its
  own, whatever the heap holds and whatever other goroutines are doing.
\<close>

lemma Lock_line_never_waits:
  assumes "handlers w (g_h g) = A_StreamHandler sh" and "StreamHandler.mu sh = Unlocked"
  shows "\<exists>g1 g2 g3.
           goroutine_step E (g\<lparr>g_pc := Call\<rparr>) w = Some (g1, w)
           \<and> goroutine_step E g1 w = Some (g2, w)
           \<and> (g_pc g2 = Returned \<or> goroutine_step E g2 w = Some (g3, w) \<and> in_Emit g3)"
  using assms
  by (simp add: goroutine_step_def Let_def Mutex_Lock_def in_Emit_def)

text \<open>
  C1. \<^verbatim>\<open>Handle\<close> is meant to take the handler instance's own lock around
  \<^verbatim>\<open>Emit\<close>, so that no two \<^verbatim>\<open>Emit\<close> calls on one instance overlap. The code does not
  achieve it. Two goroutines call \<^verbatim>\<open>Handle\<close> on the handler that
  \<^verbatim>\<open>NewStreamHandler("h")\<close> returned, stored at address 0, with the records of level 1
  and 2. After four steps of the first and three of the second, both are inside
  \<^verbatim>\<open>Emit\<close>, each holding the lock of its own copy, while the mutex of the stored
  handler is still free. Continued, the second goroutine's whole \<^verbatim>\<open>Emit\<close> runs between
  the first one's formatter call and its write: the trace shows the two emissions nested.
\<close>

theorem Handle_calls_overlap:
  "NewStreamHandler ''h'' = Returns sh_new
   \<and> handlers w0 0 = A_StreamHandler sh_new
   \<and> (case run E0 [0, 0, 0, 0, 1, 1, 1] \<lparr> heap = w0, goroutines = [start 0 1, start 0 2] \<rparr> of
        None \<Rightarrow> False
      | Some c \<Rightarrow>
          in_Emit (goroutines c ! 0) \<and> in_Emit (goroutines c ! 1)
          \<and> StreamHandler.mu (g_self (goroutines c ! 0)) = Locked
          \<and> StreamHandler.mu (g_self (goroutines c ! 1)) = Locked
          \<and> handlers (heap c) 0 = A_StreamHandler sh_new
          \<and> StreamHandler.mu sh_new = Unlocked)
   \<and> (case run E0 [0, 0, 0, 0, 1, 1, 1, 1, 1, 1, 0, 0]
              \<lparr> heap = w0, goroutines = [start 0 1, start 0 2] \<rparr> of
        None \<Rightarrow> False
      | Some c \<Rightarrow>
          map g_pc (goroutines c) = [Returned, Returned]
          \<and> trace (heap c) =
              [Format_call TerminalFormatter 1,
               Format_call TerminalFormatter 2,
               Write_call (File_Writer os_Stderr) ''!!\<newline>'',
               Write_call (File_Writer os_Stderr) ''!\<newline>''])"
  by (simp add: NewStreamHandler_def sh_new_def w0_def start_def step_def goroutine_step_def
      StreamHandler_Filter_def Mutex_Lock_def Mutex_Unlock_def in_Emit_def E0_def Format0_def
      emit_event_def fmt_Fprintln_def fmt_Fprintf_failed_def eval_nat_numeral)

end
